theory Spec2Isabelle
  imports Complex_Main
begin

section \<open>Python values used by boinc/client.py\<close>

text \<open>
  Exceptions are values: a function of the source that may raise returns
  \<open>error + 'a\<close>, with \<open>Inl\<close> carrying the exception.
\<close>

datatype error =
    RecursionError
  | TypeError
  | ValueError
  | OverflowError
  | AttributeError
  | SocketError
  | OtherError

text \<open>
  An \<open>ElementTree.Element\<close>: its tag, its text (\<open>etext\<close>, which is \<open>None\<close> when the
  element holds no character data) and its child elements in document order.
\<close>

datatype element = Element (tag: string) (etext: "string option") (children: "element list")

subsection \<open>str.strip() and str.lower()\<close>

text \<open>
  Texts are strings of characters with code points below 256. \<open>isspace\<close> lists the
  code points in that range which Python's \<open>str.strip()\<close> removes; \<open>lower_chr\<close> is
  \<open>str.lower()\<close> on one character of that range.
\<close>

definition isspace :: "char \<Rightarrow> bool" where
  "isspace c = (let n = (of_char c :: nat) in
     (9 \<le> n \<and> n \<le> 13) \<or> (28 \<le> n \<and> n \<le> 32) \<or> n = 133 \<or> n = 160)"

definition strip :: "string \<Rightarrow> string" where
  "strip s = rev (dropWhile isspace (rev (dropWhile isspace s)))"

definition lower_chr :: "char \<Rightarrow> char" where
  "lower_chr c = (let n = (of_char c :: nat) in
     if (65 \<le> n \<and> n \<le> 90) \<or> (192 \<le> n \<and> n \<le> 222 \<and> n \<noteq> 215)
     then char_of (n + 32) else c)"

definition lower :: "string \<Rightarrow> string" where
  "lower s = map lower_chr s"

text \<open>\<open>s.replace(a, b)\<close> for single characters \<open>a\<close> and \<open>b\<close>.\<close>

definition replace_chr :: "char \<Rightarrow> char \<Rightarrow> string \<Rightarrow> string" where
  "replace_chr a b s = map (\<lambda>c. if c = a then b else c) s"

subsection \<open>str(int)\<close>

definition digit_chr :: "nat \<Rightarrow> char" where
  "digit_chr d = ''0123456789'' ! d"

fun str_nat :: "nat \<Rightarrow> string" where
  "str_nat n = (if n < 10 then [digit_chr n] else str_nat (n div 10) @ [digit_chr (n mod 10)])"

declare str_nat.simps [simp del]

definition str_int :: "int \<Rightarrow> string" where
  "str_int i = (if i < 0 then CHR ''-'' # str_nat (nat (- i)) else str_nat (nat i))"

section \<open>Scalar decoders\<close>

text \<open>
  \<open>parse_bool\<close>: \<open>True\<close> when the text is missing, otherwise
  \<open>bool(e.text) and not e.text.strip().lower() in ("0", "false")\<close>.
\<close>

definition parse_bool :: "element \<Rightarrow> bool" where
  "parse_bool e =
     (case etext e of
        None \<Rightarrow> True
      | Some t \<Rightarrow> t \<noteq> [] \<and> \<not> (lower (strip t) \<in> set [''0'', ''false'']))"

definition parse_str :: "element \<Rightarrow> string" where
  "parse_str e = (case etext e of None \<Rightarrow> [] | Some t \<Rightarrow> strip t)"

definition parse_list :: "element \<Rightarrow> element list" where
  "parse_list e = children e"

section \<open>Enumerations\<close>

datatype enum_cls = NetworkStatus | SuspendReason | RunMode | CpuSched | ResultState | Process

definition UNKNOWN :: int where
  "UNKNOWN = - 1"

text \<open>
  \<open>cls_dict\<close> is the integer-valued part of \<open>cls.__dict__\<close>: the attributes the class
  body itself assigns, in the order of the source. The inherited \<open>UNKNOWN\<close> lives in
  \<open>Enum.__dict__\<close> and is not part of it. The other entries of \<open>cls.__dict__\<close>
  (\<open>name\<close>, \<open>__doc__\<close>, \<open>__module__\<close>) never compare equal to an integer.
\<close>

fun cls_dict :: "enum_cls \<Rightarrow> (string \<times> int) list" where
  "cls_dict NetworkStatus =
     [(''ONLINE'', 0), (''WANT_CONNECTION'', 1), (''WANT_DISCONNECT'', 2),
      (''LOOKUP_PENDING'', 3)]"
| "cls_dict SuspendReason =
     [(''NOT_SUSPENDED'', 0), (''BATTERIES'', 1), (''USER_ACTIVE'', 2), (''USER_REQ'', 4),
      (''TIME_OF_DAY'', 8), (''BENCHMARKS'', 16), (''DISK_SIZE'', 32),
      (''CPU_THROTTLE'', 64), (''NO_RECENT_INPUT'', 128), (''INITIAL_DELAY'', 256),
      (''EXCLUSIVE_APP_RUNNING'', 512), (''CPU_USAGE'', 1024),
      (''NETWORK_QUOTA_EXCEEDED'', 2048), (''OS'', 4096), (''WIFI_STATE'', 4097),
      (''BATTERY_CHARGING'', 4098), (''BATTERY_OVERHEATED'', 4099)]"
| "cls_dict RunMode = [(''ALWAYS'', 1), (''AUTO'', 2), (''NEVER'', 3), (''RESTORE'', 4)]"
| "cls_dict CpuSched = [(''UNINITIALIZED'', 0), (''PREEMPTED'', 1), (''SCHEDULED'', 2)]"
| "cls_dict ResultState =
     [(''NEW'', 0), (''FILES_DOWNLOADING'', 1), (''FILES_DOWNLOADED'', 2),
      (''COMPUTE_ERROR'', 3), (''FILES_UPLOADING'', 4), (''FILES_UPLOADED'', 5),
      (''ABORTED'', 6), (''UPLOAD_FAILED'', 7)]"
| "cls_dict Process =
     [(''UNINITIALIZED'', 0), (''EXECUTING'', 1), (''SUSPENDED'', 9), (''ABORT_PENDING'', 5),
      (''QUIT_PENDING'', 8), (''COPY_PENDING'', 10)]"

text \<open>
  \<open>hasattr(cls, s)\<close> for the names the source declares: the class's own constants, the
  inherited \<open>UNKNOWN\<close> and the method \<open>name\<close>. Every other attribute of a class is one
  of \<open>object\<close>'s, whose names begin with an underscore.
\<close>

definition hasattr_cls :: "enum_cls \<Rightarrow> string \<Rightarrow> bool" where
  "hasattr_cls cls s =
     (s \<in> set (map fst (cls_dict cls)) \<or> s = ''UNKNOWN'' \<or> s = ''name''
      \<or> (s \<noteq> [] \<and> hd s = CHR ''_''))"

text \<open>The loop \<open>for k, v in cls.__dict__.items(): if v == value: return k...\<close>.\<close>

fun find_key :: "(string \<times> int) list \<Rightarrow> int \<Rightarrow> string option" where
  "find_key [] value = None"
| "find_key ((k, v) # kvs) value = (if v = value then Some k else find_key kvs value)"

definition label :: "string \<Rightarrow> string" where
  "label k = replace_chr (CHR ''_'') (CHR '' '') (lower k)"

text \<open>
  The \<open>if\<close>/\<open>elif\<close> chain of a subclass's own \<open>name\<close>: \<open>Some\<close> the label a branch
  returns, \<open>None\<close> where the chain ends in \<open>super().name(v)\<close>. \<open>CpuSched\<close>,
  \<open>ResultState\<close> and \<open>Process\<close> do not override \<open>name\<close>.
\<close>

fun name_override :: "enum_cls \<Rightarrow> int \<Rightarrow> string option" where
  "name_override NetworkStatus v =
     (if v = UNKNOWN then Some ''unknown''
      else if v = 0 then Some ''up''
      else if v = 1 then Some ''need connection''
      else if v = 2 then Some ''do not need connection''
      else if v = 3 then Some ''reference site lookup pending''
      else None)"
| "name_override SuspendReason v =
     (if v = UNKNOWN then Some ''unknown reason''
      else if v = 1 then Some ''on batteries''
      else if v = 2 then Some ''computer is in use''
      else if v = 4 then Some ''user request''
      else if v = 8 then Some ''time of day''
      else if v = 16 then Some ''CPU benchmarks in progress''
      else if v = 32 then Some ''need disk space - check preferences''
      else if v = 128 then Some ''no recent user activity''
      else if v = 256 then Some ''initial delay''
      else if v = 512 then Some ''an exclusive app is running''
      else if v = 1024 then Some ''CPU is busy''
      else if v = 2048 then Some ''network bandwidth limit exceeded''
      else if v = 4096 then Some ''requested by operating system''
      else if v = 4097 then Some ''not connected to WiFi network''
      else if v = 4098 then Some ''battery is recharging''
      else if v = 4099 then Some ''battery is overheated''
      else None)"
| "name_override RunMode v = (if v = 2 then Some ''according to preferences'' else None)"
| "name_override CpuSched v = None"
| "name_override ResultState v = None"
| "name_override Process v = None"

text \<open>
  \<open>cls_name depth cls v\<close> is the call \<open>cls.name(v)\<close> with \<open>depth\<close> nested calls of
  \<open>cls.name\<close> left before the interpreter's recursion limit: the subclass's chain
  first, then \<open>Enum.name\<close>, whose last line calls \<open>cls.name(Enum.UNKNOWN)\<close> again.
  In the first branch of \<open>Enum.name\<close>, \<open>getattr(cls, value, None)\<close> is given the
  integer itself as attribute name, which raises \<open>TypeError\<close>.
\<close>

fun cls_name :: "nat \<Rightarrow> enum_cls \<Rightarrow> int \<Rightarrow> error + string" where
  "cls_name 0 cls v = Inl RecursionError"
| "cls_name (Suc depth) cls v =
     (case name_override cls v of
        Some s \<Rightarrow> Inr s
      | None \<Rightarrow>
          if hasattr_cls cls (str_int v) then Inl TypeError
          else (case find_key (cls_dict cls) v of
                  Some k \<Rightarrow> Inr (label k)
                | None \<Rightarrow> cls_name depth cls UNKNOWN))"

section \<open>VersionInfo\<close>

record VersionInfo =
  major :: int
  minor :: int
  release :: int

text \<open>The right-hand operand of a comparison: a VersionInfo or an object of another class.\<close>

datatype operand = VI VersionInfo | NotVersionInfo

text \<open>The outcome of a rich comparison method.\<close>

datatype cmp = Res bool | NotImplemented

definition tuple_of :: "VersionInfo \<Rightarrow> int \<times> int \<times> int" where
  "tuple_of v = (major v, minor v, release v)"

text \<open>
  Python compares tuples by the first position at which they differ.
\<close>

fun tuple_gt :: "int \<times> int \<times> int \<Rightarrow> int \<times> int \<times> int \<Rightarrow> bool" where
  "tuple_gt (a1, a2, a3) (b1, b2, b3) =
     (if a1 \<noteq> b1 then a1 > b1
      else if a2 \<noteq> b2 then a2 > b2
      else if a3 \<noteq> b3 then a3 > b3
      else False)"

definition VersionInfo_eq :: "VersionInfo \<Rightarrow> operand \<Rightarrow> bool" where
  "VersionInfo_eq self other =
     (case other of VI o' \<Rightarrow> tuple_of self = tuple_of o' | NotVersionInfo \<Rightarrow> False)"

definition VersionInfo_ne :: "VersionInfo \<Rightarrow> operand \<Rightarrow> bool" where
  "VersionInfo_ne self other = (\<not> VersionInfo_eq self other)"

definition VersionInfo_gt :: "VersionInfo \<Rightarrow> operand \<Rightarrow> cmp" where
  "VersionInfo_gt self other =
     (case other of
        VI o' \<Rightarrow> Res (tuple_gt (tuple_of self) (tuple_of o'))
      | NotVersionInfo \<Rightarrow> NotImplemented)"

text \<open>
  The three methods \<open>functools.total_ordering\<close> adds to a class that defines
  \<open>__gt__\<close>: each calls \<open>__gt__\<close>, hands \<open>NotImplemented\<close> through, and otherwise
  returns \<open>not gt and self != other\<close>, \<open>not gt\<close>, and \<open>gt or self == other\<close>.
\<close>

definition VersionInfo_lt :: "VersionInfo \<Rightarrow> operand \<Rightarrow> cmp" where
  "VersionInfo_lt self other =
     (case VersionInfo_gt self other of
        NotImplemented \<Rightarrow> NotImplemented
      | Res g \<Rightarrow> Res (\<not> g \<and> VersionInfo_ne self other))"

definition VersionInfo_le :: "VersionInfo \<Rightarrow> operand \<Rightarrow> cmp" where
  "VersionInfo_le self other =
     (case VersionInfo_gt self other of
        NotImplemented \<Rightarrow> NotImplemented
      | Res g \<Rightarrow> Res (\<not> g))"

definition VersionInfo_ge :: "VersionInfo \<Rightarrow> operand \<Rightarrow> cmp" where
  "VersionInfo_ge self other =
     (case VersionInfo_gt self other of
        NotImplemented \<Rightarrow> NotImplemented
      | Res g \<Rightarrow> Res (g \<or> VersionInfo_eq self other))"

section \<open>Objects and the generic decoder\<close>

text \<open>
  A Python float: a finite value, an infinity or NaN. The zero tests of the source
  (\<open>x != 0\<close>, \<open>x == 0\<close>) do not tell the two zeros apart, and neither does \<open>Finite 0\<close>.
\<close>

datatype pyfloat = Finite real | PosInf | NegInf | NaN

text \<open>
  The values an attribute of an entity holds: the defaults of the \<open>__init__\<close> methods
  (\<open>None\<close>, booleans, integers, floats, strings, lists) and what the decoders store
  (lists of child elements, raw elements).
\<close>

datatype pyval =
    PNone
  | PBool bool
  | PInt int
  | PFloat pyfloat
  | PStr string
  | PList "element list"
  | PElem element

text \<open>
  An entity is its instance dictionary: attribute name to value. \<open>hasattr\<close>,
  \<open>getattr\<close> and \<open>setattr\<close> of the source are lookup and update of this map; the
  model covers tags that are field names or unknown names, not tags that happen to
  name a method of the class.
\<close>

type_synonym obj = "string \<rightharpoonup> pyval"

definition getattr :: "obj \<Rightarrow> string \<Rightarrow> error + pyval" where
  "getattr ob n = (case ob n of None \<Rightarrow> Inl AttributeError | Some v \<Rightarrow> Inr v)"

text \<open>\<open>v == 0\<close> for a value \<open>v\<close>; \<open>v != 0\<close> is its negation.\<close>

definition py_eq_zero :: "pyval \<Rightarrow> bool" where
  "py_eq_zero v =
     (case v of
        PBool b \<Rightarrow> \<not> b
      | PInt i \<Rightarrow> i = 0
      | PFloat f \<Rightarrow> f = Finite 0
      | _ \<Rightarrow> False)"

text \<open>
  \<open>int(x)\<close> for a float \<open>x\<close>: truncation towards zero, OverflowError on an infinity,
  ValueError on NaN.
\<close>

definition int_of_float :: "pyfloat \<Rightarrow> error + int" where
  "int_of_float f =
     (case f of
        Finite r \<Rightarrow> Inr (if 0 \<le> r then \<lfloor>r\<rfloor> else \<lceil>r\<rceil>)
      | PosInf \<Rightarrow> Inl OverflowError
      | NegInf \<Rightarrow> Inl OverflowError
      | NaN \<Rightarrow> Inl ValueError)"

text \<open>
  The builtin \<open>float(s)\<close> is a parameter \<open>F\<close> of the decoders: \<open>F s = None\<close> stands for
  the ValueError that \<open>float\<close> raises on a string it does not accept.
\<close>

type_synonym float_builtin = "string \<Rightarrow> pyfloat option"

definition parse_float :: "float_builtin \<Rightarrow> element \<Rightarrow> error + pyfloat" where
  "parse_float F e =
     (case etext e of
        None \<Rightarrow> Inr (Finite 0)
      | Some t \<Rightarrow> (case F (strip t) of None \<Rightarrow> Inl ValueError | Some f \<Rightarrow> Inr f))"

definition parse_int :: "float_builtin \<Rightarrow> element \<Rightarrow> error + int" where
  "parse_int F e =
     (case etext e of
        None \<Rightarrow> Inr 0
      | Some t \<Rightarrow> (case F (strip t) of None \<Rightarrow> Inl ValueError | Some f \<Rightarrow> int_of_float f))"

text \<open>
  The \<open>isinstance\<close> chain of \<open>setattrs_from_xml\<close>, applied to the element: the decoder
  is chosen by the current value of the attribute, and any value that is not a bool,
  int, float, str or list gets the identity \<open>lambda x: x\<close>, which stores the element.
\<close>

definition default_attrfunc :: "float_builtin \<Rightarrow> pyval \<Rightarrow> element \<Rightarrow> error + pyval" where
  "default_attrfunc F attr e =
     (case attr of
        PBool _ \<Rightarrow> Inr (PBool (parse_bool e))
      | PInt _ \<Rightarrow> (case parse_int F e of Inl err \<Rightarrow> Inl err | Inr i \<Rightarrow> Inr (PInt i))
      | PFloat _ \<Rightarrow> (case parse_float F e of Inl err \<Rightarrow> Inl err | Inr f \<Rightarrow> Inr (PFloat f))
      | PStr _ \<Rightarrow> Inr (PStr (parse_str e))
      | PList _ \<Rightarrow> Inr (PList (parse_list e))
      | PNone \<Rightarrow> Inr (PElem e)
      | PElem _ \<Rightarrow> Inr (PElem e))"

type_synonym attrfuncdict = "string \<rightharpoonup> (element \<Rightarrow> error + pyval)"

text \<open>
  The loop \<open>for e in list(xml)\<close>: a child whose tag is no attribute is reported and
  skipped, an exception of a decoder ends the loop.
\<close>

fun setattrs :: "float_builtin \<Rightarrow> attrfuncdict \<Rightarrow> obj \<Rightarrow> element list \<Rightarrow> error + obj" where
  "setattrs F D ob [] = Inr ob"
| "setattrs F D ob (e # es) =
     (case ob (tag e) of
        None \<Rightarrow> setattrs F D ob es
      | Some attr \<Rightarrow>
          (case (case D (tag e) of
                   None \<Rightarrow> default_attrfunc F attr e
                 | Some attrfunc \<Rightarrow> attrfunc e) of
             Inl err \<Rightarrow> Inl err
           | Inr v \<Rightarrow> setattrs F D (ob(tag e \<mapsto> v)) es))"

definition setattrs_from_xml ::
    "float_builtin \<Rightarrow> obj \<Rightarrow> element \<Rightarrow> attrfuncdict \<Rightarrow> error + obj" where
  "setattrs_from_xml F ob xml D = setattrs F D ob (children xml)"

section \<open>Entities\<close>

text \<open>\<open>_Struct.parse\<close>: \<open>setattrs_from_xml(cls(), xml)\<close>, with the default empty dictionary.\<close>

definition Struct_parse :: "float_builtin \<Rightarrow> obj \<Rightarrow> element \<Rightarrow> error + obj" where
  "Struct_parse F init xml = setattrs_from_xml F init xml Map.empty"



definition Project_init :: obj where
  "Project_init = map_of
     [(''master_url'', PStr []), (''project_name'', PStr []), (''symstore'', PNone),
      (''user_name'', PStr []), (''team_name'', PStr []), (''host_venue'', PNone),
      (''email_hash'', PStr []), (''cross_project_id'', PStr []),
      (''external_cpid'', PStr []), (''cpid_time'', PFloat (Finite 0)),
      (''user_total_credit'', PFloat (Finite 0)), (''user_expavg_credit'', PFloat (Finite 0)),
      (''user_create_time'', PFloat (Finite 0)), (''rpc_seqno'', PInt 0),
      (''userid'', PInt 0), (''teamid'', PInt 0), (''hostid'', PInt 0),
      (''host_total_credit'', PFloat (Finite 0)), (''host_expavg_credit'', PFloat (Finite 0)),
      (''host_create_time'', PFloat (Finite 0)), (''min_rpc_time'', PFloat (Finite 0)),
      (''next_rpc_time'', PFloat (Finite 0)), (''nrpc_failures'', PNone),
      (''master_fetch_failures'', PNone), (''rec'', PFloat (Finite 0)),
      (''rec_time'', PFloat (Finite 0)), (''resource_share'', PFloat (Finite 0)),
      (''desired_disk_usage'', PFloat (Finite 0)),
      (''duration_correction_factor'', PFloat (Finite 0)), (''sched_rpc_pending'', PInt 0),
      (''send_time_stats_log'', PInt 0), (''send_job_log'', PInt 0),
      (''njobs_success'', PInt 0), (''njobs_error'', PInt 0),
      (''elapsed_time'', PFloat (Finite 0)), (''last_rpc_time'', PFloat (Finite 0)),
      (''dont_use_dcf'', PNone), (''rsc_backoff_time'', PNone),
      (''rsc_backoff_interval'', PNone), (''dont_request_more_work'', PNone),
      (''verify_files_on_app_start'', PNone), (''gui_urls'', PList []),
      (''sched_priority'', PFloat (Finite 0)),
      (''project_files_downloaded_time'', PFloat (Finite 0)), (''project_dir'', PStr []),
      (''venue'', PNone)]"

definition Result_init :: obj where
  "Result_init = map_of
     [(''name'', PStr []), (''wu_name'', PStr []), (''version_num'', PInt 0),
      (''plan_class'', PStr []), (''project_url'', PStr []),
      (''report_deadline'', PFloat (Finite 0)), (''received_time'', PFloat (Finite 0)),
      (''ready_to_report'', PBool False), (''got_server_ack'', PBool False),
      (''final_cpu_time'', PFloat (Finite 0)), (''final_elapsed_time'', PFloat (Finite 0)),
      (''state'', PInt 0), (''estimated_cpu_time_remaining'', PFloat (Finite 0)),
      (''exit_status'', PInt 0), (''suspended_via_gui'', PBool False),
      (''project_suspended_via_gui'', PBool False), (''edf_scheduled'', PBool False),
      (''coproc_missing'', PBool False), (''scheduler_wait'', PBool False),
      (''scheduler_wait_reason'', PStr []), (''network_wait'', PBool False),
      (''resources'', PStr []), (''active_task'', PBool False),
      (''active_task_state'', PInt 0), (''app_version_num'', PInt 0), (''slot'', PInt (- 1)),
      (''pid'', PInt 0), (''scheduler_state'', PInt 0),
      (''checkpoint_cpu_time'', PFloat (Finite 0)), (''current_cpu_time'', PFloat (Finite 0)),
      (''fraction_done'', PFloat (Finite 0)), (''elapsed_time'', PFloat (Finite 0)),
      (''swap_size'', PInt 0), (''working_set_size_smoothed'', PFloat (Finite 0)),
      (''too_large'', PBool False), (''needs_shmem'', PBool False),
      (''graphics_exec_path'', PStr []), (''web_graphics_url'', PStr []),
      (''remote_desktop_addr'', PStr []), (''slot_path'', PStr []),
      (''completed_time'', PFloat (Finite 0)), (''report_immediately'', PBool False),
      (''working_set_size'', PInt 0), (''page_fault_rate'', PFloat (Finite 0)),
      (''signal'', PInt 0), (''app'', PNone), (''wup'', PNone), (''project'', PNone),
      (''avp'', PNone), (''progress_rate'', PNone), (''platform'', PNone),
      (''bytes_sent'', PNone), (''bytes_received'', PNone)]"



definition Project_parse :: "float_builtin \<Rightarrow> element \<Rightarrow> error + obj" where
  "Project_parse F xml = Struct_parse F Project_init xml"

text \<open>
  \<open>Result.parse\<close> up to the two compatibility statements: the generic decoding of the
  element, then of the first \<open>active_task\<close> child if there is one.
\<close>

definition Result_decode :: "float_builtin \<Rightarrow> element \<Rightarrow> error + obj" where
  "Result_decode F xml =
     (case Struct_parse F Result_init xml of
        Inl err \<Rightarrow> Inl err
      | Inr result \<Rightarrow>
          (case find (\<lambda>e. tag e = ''active_task'') (children xml) of
             None \<Rightarrow> Inr (result(''active_task'' \<mapsto> PBool False))
           | Some active_task \<Rightarrow>
               setattrs_from_xml F (result(''active_task'' \<mapsto> PBool True)) active_task
                 Map.empty))"

text \<open>
  One compatibility statement,
  \<open>if result.cpu != 0 and result.elapsed == 0: result.elapsed = result.cpu\<close>.
\<close>

definition elapsed_shim :: "string \<Rightarrow> string \<Rightarrow> obj \<Rightarrow> error + obj" where
  "elapsed_shim cpu elapsed result =
     (case getattr result cpu of
        Inl err \<Rightarrow> Inl err
      | Inr c \<Rightarrow>
          if py_eq_zero c then Inr result
          else (case getattr result elapsed of
                  Inl err \<Rightarrow> Inl err
                | Inr t \<Rightarrow> if py_eq_zero t then Inr (result(elapsed \<mapsto> c)) else Inr result))"

definition Result_parse :: "float_builtin \<Rightarrow> element \<Rightarrow> error + obj" where
  "Result_parse F xml =
     (case Result_decode F xml of
        Inl err \<Rightarrow> Inl err
      | Inr result \<Rightarrow>
          (case elapsed_shim ''current_cpu_time'' ''elapsed_time'' result of
             Inl err \<Rightarrow> Inl err
           | Inr result' \<Rightarrow> elapsed_shim ''final_cpu_time'' ''final_elapsed_time'' result'))"

text \<open>
  A stand-in for the builtin \<open>float\<close>, used to run the decoders on examples: it reads
  plain decimal literals (an optional sign, digits, an optional point and digits)
  exactly, and rejects every other string.
\<close>

definition digit_of :: "char \<Rightarrow> nat option" where
  "digit_of c = (let n = (of_char c :: nat) in if 48 \<le> n \<and> n \<le> 57 then Some (n - 48) else None)"

fun digits_val :: "nat \<Rightarrow> string \<Rightarrow> nat option" where
  "digits_val acc [] = Some acc"
| "digits_val acc (c # cs) =
     (case digit_of c of None \<Rightarrow> None | Some d \<Rightarrow> digits_val (10 * acc + d) cs)"

definition float_plain :: float_builtin where
  "float_plain s =
     (let neg = (s \<noteq> [] \<and> hd s = CHR ''-'');
          body = (if s \<noteq> [] \<and> (hd s = CHR ''-'' \<or> hd s = CHR ''+'') then tl s else s);
          ip = takeWhile (\<lambda>c. c \<noteq> CHR ''.'') body;
          fp = drop 1 (dropWhile (\<lambda>c. c \<noteq> CHR ''.'') body)
      in if ip = [] \<and> fp = [] then None
         else (case digits_val 0 ip of
                 None \<Rightarrow> None
               | Some i \<Rightarrow>
                   (case digits_val 0 fp of
                      None \<Rightarrow> None
                    | Some f \<Rightarrow>
                        Some (Finite ((if neg then - 1 else 1)
                                      * (real i + real f / 10 ^ length fp))))))"

section \<open>The client\<close>

text \<open>
  What \<open>BoincClient\<close> uses from outside \<open>client.py\<close> is a parameter of the model: the
  transport (module \<open>rpc\<close>, with \<open>connect\<close>, \<open>disconnect\<close> and \<open>call\<close>, each acting on
  the state \<open>'t\<close> of the connection and possibly raising), the builtin \<open>float\<close>, and
  \<open>hashlib.md5(bytes).hexdigest()\<close>.
\<close>

record 't env =
  rpc_connect :: "'t \<Rightarrow> string \<Rightarrow> int \<Rightarrow> error option \<times> 't"
  rpc_disconnect :: "'t \<Rightarrow> 't"
  rpc_call :: "'t \<Rightarrow> string \<Rightarrow> (error + element) \<times> 't"
  builtin_float :: float_builtin
  md5_hexdigest :: "string \<Rightarrow> string"

text \<open>
  The file \<open>GUI_RPC_PASSWD_FILE\<close>: its content, or \<open>None\<close> when opening it raises
  IOError, and the number of times it has been opened.
\<close>

record filesystem =
  gui_rpc_passwd_file :: "string option"
  opens :: nat

definition read_gui_rpc_password :: "filesystem \<Rightarrow> string option \<times> filesystem" where
  "read_gui_rpc_password fs =
     ((case gui_rpc_passwd_file fs of
         None \<Rightarrow> None
       | Some buf \<Rightarrow> Some (if buf \<noteq> [] \<and> last buf = CHR 0x0A then butlast buf else buf)),
      fs\<lparr>opens := Suc (opens fs)\<rparr>)"

text \<open>The fields of a \<open>BoincClient\<close>; \<open>connected_flag\<close> is the attribute \<open>connected\<close>.\<close>

record 't BoincClient =
  hostname :: string
  port :: int
  passwd :: "string option"
  rpc :: 't
  version :: "obj option"
  authorized :: bool
  connected_flag :: bool

text \<open>\<open>"%s" % x\<close> for a string or \<open>None\<close>.\<close>

definition format_s :: "string option \<Rightarrow> string" where
  "format_s x = (case x of None \<Rightarrow> ''None'' | Some s \<Rightarrow> s)"

text \<open>\<open>s.encode("utf-8")\<close> for code points below 256.\<close>

definition encode_utf8 :: "string \<Rightarrow> string" where
  "encode_utf8 s =
     concat (map (\<lambda>c. let n = (of_char c :: nat) in
                       if n < 128 then [c] else [char_of (192 + n div 64), char_of (128 + n mod 64)])
                 s)"

text \<open>
  The first statement of \<open>authorize\<close>:
  \<open>if password is None and not self.hostname: password = read_gui_rpc_password() or ""\<close>.
\<close>

definition resolve_password ::
    "string option \<Rightarrow> string \<Rightarrow> filesystem \<Rightarrow> string option \<times> filesystem" where
  "resolve_password password host fs =
     (if password = None \<and> host = []
      then (case read_gui_rpc_password fs of
              (None, fs') \<Rightarrow> (Some [], fs')
            | (Some p, fs') \<Rightarrow> (Some p, fs'))
      else (password, fs))"

definition auth2_request :: "string \<Rightarrow> string" where
  "auth2_request hash = ''<auth2><nonce_hash>'' @ hash @ ''</nonce_hash></auth2>''"

definition authorize ::
    "'t env \<Rightarrow> string option \<Rightarrow> 't BoincClient \<times> filesystem
      \<Rightarrow> (error + bool) \<times> 't BoincClient \<times> filesystem" where
  "authorize X password s =
     (case s of (self, fs) \<Rightarrow>
        (case resolve_password password (hostname self) fs of (password', fs') \<Rightarrow>
           (case rpc_call X (rpc self) ''<auth1/>'' of
              (Inl err, t1) \<Rightarrow> (Inl err, self\<lparr>rpc := t1\<rparr>, fs')
            | (Inr reply1, t1) \<Rightarrow>
                (let nonce = etext reply1;
                     inputStr = format_s nonce @ format_s password';
                     hash = lower (md5_hexdigest X (encode_utf8 inputStr))
                 in case rpc_call X t1 (auth2_request hash) of
                      (Inl err, t2) \<Rightarrow> (Inl err, self\<lparr>rpc := t2\<rparr>, fs')
                    | (Inr reply, t2) \<Rightarrow>
                        (Inr (tag reply = ''authorized''), self\<lparr>rpc := t2\<rparr>, fs')))))"



definition disconnect :: "'t env \<Rightarrow> 't BoincClient \<Rightarrow> 't BoincClient" where
  "disconnect X self = self\<lparr>rpc := rpc_disconnect X (rpc self)\<rparr>"


text \<open>The loop \<open>for item in list(reply): xs.append(parse(item))\<close>.\<close>

fun parse_each :: "(element \<Rightarrow> error + 'a) \<Rightarrow> element list \<Rightarrow> error + 'a list" where
  "parse_each p [] = Inr []"
| "parse_each p (item # items) =
     (case p item of
        Inl err \<Rightarrow> Inl err
      | Inr x \<Rightarrow> (case parse_each p items of Inl err \<Rightarrow> Inl err | Inr xs \<Rightarrow> Inr (x # xs)))"

definition get_results_request :: "bool \<Rightarrow> string" where
  "get_results_request active_only =
     ''<get_results><active_only>'' @ (if active_only then ''1'' else ''0'')
       @ ''</active_only></get_results>''"

definition get_results ::
    "'t env \<Rightarrow> bool \<Rightarrow> 't BoincClient \<Rightarrow> (error + obj list) \<times> 't BoincClient" where
  "get_results X active_only self =
     (case rpc_call X (rpc self) (get_results_request active_only) of
        (Inl err, t) \<Rightarrow> (Inl err, self\<lparr>rpc := t\<rparr>)
      | (Inr reply, t) \<Rightarrow>
          (if \<not> tag reply = ''results'' then Inr []
           else parse_each (Result_parse (builtin_float X)) (children reply),
           self\<lparr>rpc := t\<rparr>))"

text \<open>
  In \<open>get_projects\<close> the test is \<open>not reply or not reply.tag == "projects"\<close>; an
  element is false when it has no children.
\<close>

definition get_projects ::
    "'t env \<Rightarrow> 't BoincClient \<Rightarrow> (error + obj list) \<times> 't BoincClient" where
  "get_projects X self =
     (case rpc_call X (rpc self) ''<get_project_status/>'' of
        (Inl err, t) \<Rightarrow> (Inl err, self\<lparr>rpc := t\<rparr>)
      | (Inr reply, t) \<Rightarrow>
          (if children reply = [] \<or> \<not> tag reply = ''projects'' then Inr []
           else parse_each (Project_parse (builtin_float X)) (children reply),
           self\<lparr>rpc := t\<rparr>))"

subsection \<open>A scripted transport, to run the client on examples\<close>

text \<open>
  The peer is a script: the outcomes of the coming \<open>connect\<close> calls and of the coming
  \<open>call\<close>s, in order; \<open>sent\<close> records the requests handed to \<open>call\<close>. A script that
  has run out answers with \<open>socket.error\<close>. \<open>shown_digest\<close> stands in for the MD5
  digest and displays the bytes it was given.
\<close>

record script =
  connects :: "error option list"
  replies :: "(error + element) list"
  sent :: "string list"

definition scripted_connect :: "script \<Rightarrow> string \<Rightarrow> int \<Rightarrow> error option \<times> script" where
  "scripted_connect t h p =
     (case connects t of
        [] \<Rightarrow> (Some SocketError, t)
      | c # cs \<Rightarrow> (c, t\<lparr>connects := cs\<rparr>))"

definition scripted_call :: "script \<Rightarrow> string \<Rightarrow> (error + element) \<times> script" where
  "scripted_call t request =
     (case replies t of
        [] \<Rightarrow> (Inl SocketError, t\<lparr>sent := sent t @ [request]\<rparr>)
      | r # rs \<Rightarrow> (r, t\<lparr>replies := rs, sent := sent t @ [request]\<rparr>))"

definition shown_digest :: "string \<Rightarrow> string" where
  "shown_digest bytes = ''MD5('' @ bytes @ '')''"

definition scripted :: "script env" where
  "scripted =
     \<lparr>rpc_connect = scripted_connect, rpc_disconnect = (\<lambda>t. t), rpc_call = scripted_call,
      builtin_float = float_plain, md5_hexdigest = shown_digest\<rparr>"

definition client0 :: "string \<Rightarrow> string option \<Rightarrow> script \<Rightarrow> script BoincClient" where
  "client0 host pw t =
     \<lparr>hostname = host, port = 0, passwd = pw, rpc = t, version = None,
      authorized = False, connected_flag = False\<rparr>"

section \<open>Properties\<close>

subsection \<open>Enumeration names\<close>

lemma digit_chr_in: "n < 10 \<Longrightarrow> digit_chr n \<in> set ''0123456789''"
  unfolding digit_chr_def by (rule nth_mem) simp

lemma hd_str_nat: "str_nat n \<noteq> [] \<and> hd (str_nat n) \<in> set ''0123456789''"
proof (induction n rule: str_nat.induct)
  case (1 n)
  show ?case
  proof (cases "n < 10")
    case True
    then have "str_nat n = [digit_chr n]" by (subst str_nat.simps) simp
    with digit_chr_in [OF True] show ?thesis by simp
  next
    case False
    then have "str_nat n = str_nat (n div 10) @ [digit_chr (n mod 10)]"
      by (subst str_nat.simps) simp
    with 1 False show ?thesis by simp
  qed
qed

lemma hd_str_int: "str_int v \<noteq> [] \<and> hd (str_int v) \<in> set ''-0123456789''"
  using hd_str_nat [of "nat v"] hd_str_nat [of "nat (- v)"] by (auto simp: str_int_def)

lemma hasattr_cls_hd: "hasattr_cls cls s \<Longrightarrow> s \<noteq> [] \<and> hd s \<notin> set ''-0123456789''"
  by (cases cls) (auto simp: hasattr_cls_def)

text \<open>The decimal numeral of an integer is never the name of an attribute.\<close>

lemma no_numeral_attr: "\<not> hasattr_cls cls (str_int v)"
  using hasattr_cls_hd [of cls "str_int v"] hd_str_int [of v] by blast

lemma cls_name_Suc:
  "cls_name (Suc depth) cls v =
     (case name_override cls v of
        Some s \<Rightarrow> Inr s
      | None \<Rightarrow> (case find_key (cls_dict cls) v of
                  Some k \<Rightarrow> Inr (label k)
                | None \<Rightarrow> cls_name depth cls UNKNOWN))"
  by (simp add: no_numeral_attr)

text \<open>
  In the four classes whose \<open>name\<close> has no branch for \<open>UNKNOWN\<close>, looking up
  \<open>UNKNOWN\<close> calls itself until the recursion limit, whatever that limit is.
\<close>

lemma unknown_loops:
  "cls \<in> {RunMode, CpuSched, ResultState, Process} \<Longrightarrow>
   cls_name depth cls UNKNOWN = Inl RecursionError"
  by (induction depth) (auto simp: cls_name_Suc UNKNOWN_def simp del: cls_name.simps(2))

text \<open>
  \<open>NetworkStatus\<close> and \<open>SuspendReason\<close> do have the branch: there every code
  resolves, and a code outside the known set gets the label of \<open>UNKNOWN\<close>.
\<close>

lemma NetworkStatus_name_total:
  "cls_name (Suc (Suc d)) NetworkStatus v =
     (case name_override NetworkStatus v of Some s \<Rightarrow> Inr s | None \<Rightarrow> Inr ''unknown'')"
  by (simp add: cls_name_Suc UNKNOWN_def del: cls_name.simps(2))

text \<open>
  C1. The claim: for every enumeration class and every integer code the name lookup
  never raises, and a code outside the known set yields the label of UNKNOWN. The
  code does not do this for RunMode, CpuSched, ResultState and Process: with any
  recursion limit \<open>depth\<close>, \<open>RunMode.name(7)\<close>, \<open>RunMode.name(UNKNOWN)\<close>,
  \<open>CpuSched.name(UNKNOWN)\<close>, \<open>ResultState.name(8)\<close> and \<open>Process.name(2)\<close> end in
  RecursionError.
\<close>

theorem enum_name_unknown_code_raises:
  "cls_name depth RunMode 7 = Inl RecursionError
   \<and> cls_name depth RunMode UNKNOWN = Inl RecursionError
   \<and> cls_name depth CpuSched UNKNOWN = Inl RecursionError
   \<and> cls_name depth ResultState 8 = Inl RecursionError
   \<and> cls_name depth Process 2 = Inl RecursionError"
  using unknown_loops [of RunMode] unknown_loops [of CpuSched]
    unknown_loops [of ResultState] unknown_loops [of Process]
  by (cases depth) (simp_all add: cls_name_Suc del: cls_name.simps(2))

subsection \<open>parse_bool\<close>

lemma strip_blank: "list_all isspace t \<Longrightarrow> strip t = []"
proof -
  assume "list_all isspace t"
  then have "dropWhile isspace t = []"
    by (simp add: list_all_iff)
  then show ?thesis
    by (simp only: strip_def rev.simps dropWhile.simps)
qed

text \<open>The vectors of the specification, and a text of blanks only.\<close>

lemma parse_bool_vectors:
  "parse_bool (Element ''a'' None [])
   \<and> \<not> parse_bool (Element ''a'' (Some ''0'') [])
   \<and> \<not> parse_bool (Element ''a'' (Some ''False'') [])
   \<and> parse_bool (Element ''a'' (Some ''1'') [])
   \<and> parse_bool (Element ''a'' (Some ''  '') [])"
  by code_simp

text \<open>
  C2, as claimed, fails at the empty text: the claim makes \<open>parse_bool\<close> true for every
  text that is not "0" or "false" after trimming and lowercasing, the empty string
  included, and the code returns false there.
\<close>

theorem parse_bool_empty_text_counterexample:
  "\<not> (parse_bool (Element ''suspended_via_gui'' (Some []) [])
        \<longleftrightarrow> \<not> (lower (strip []) = ''0'' \<or> lower (strip []) = ''false''))"
  by (simp add: parse_bool_def lower_def strip_def)

text \<open>
  C2, amended: \<open>parse_bool\<close> returns true when the element's text is missing, and for a
  text \<open>t\<close> it returns false exactly when \<open>t\<close> is the empty string or \<open>t\<close>, trimmed and
  lowercased, equals "0" or "false".
\<close>

theorem parse_bool_amended:
  "(etext e = None \<longrightarrow> parse_bool e)
   \<and> (etext e = Some t \<longrightarrow>
        (\<not> parse_bool e \<longleftrightarrow> t = [] \<or> lower (strip t) = ''0'' \<or> lower (strip t) = ''false''))"
  by (auto simp: parse_bool_def)

theorem parse_bool_amended_witness:
  "etext (Element ''ready_to_report'' (Some '' False '') []) = Some '' False ''
   \<and> lower (strip '' False '') = ''false''
   \<and> \<not> parse_bool (Element ''ready_to_report'' (Some '' False '') [])"
proof -
  have t: "lower (strip '' False '') = ''false''"
    by code_simp
  from parse_bool_amended [of "Element ''ready_to_report'' (Some '' False '') []" "'' False ''"] t
  show ?thesis by simp
qed

subsection \<open>VersionInfo comparison\<close>

lemma tuple_gt_irrefl: "\<not> tuple_gt a a"
  by (cases a) simp

lemma tuple_gt_trans: "tuple_gt a b \<Longrightarrow> tuple_gt b c \<Longrightarrow> tuple_gt a c"
  by (cases a; cases b; cases c) (auto split: if_splits)

lemma tuple_gt_total: "a = b \<or> tuple_gt a b \<or> tuple_gt b a"
  by (cases a; cases b) auto

lemma tuple_gt_asym: "tuple_gt a b \<Longrightarrow> \<not> tuple_gt b a"
  by (cases a; cases b) (auto split: if_splits)

lemma VersionInfo_lt_VI:
  "VersionInfo_lt a (VI b) = Res (tuple_gt (tuple_of b) (tuple_of a))"
  using tuple_gt_total [of "tuple_of a" "tuple_of b"] tuple_gt_asym [of "tuple_of a" "tuple_of b"]
    tuple_gt_irrefl [of "tuple_of a"]
  by (auto simp: VersionInfo_lt_def VersionInfo_gt_def VersionInfo_ne_def VersionInfo_eq_def)

text \<open>
  C9. On VersionInfo operands, \<open>==\<close> is equality of the three components (so of the
  VersionInfo values) and \<open><\<close> is the lexicographic order on (major, minor, release):
  \<open>==\<close> is reflexive, symmetric and transitive, \<open><\<close> is irreflexive, asymmetric,
  transitive and total up to \<open>==\<close>, and \<open><=\<close>, \<open>>\<close>, \<open>>=\<close> agree with them; \<open>(1,2,3) < (1,3,0) < (2,0,0)\<close> and \<open>(1,2,3) == (1,2,3)\<close>; against an operand
  of another type the four ordering methods return \<open>NotImplemented\<close> and \<open>==\<close> is false.
\<close>

theorem VersionInfo_total_order:
  "(VersionInfo_eq a (VI b) \<longleftrightarrow>
      major a = major b \<and> minor a = minor b \<and> release a = release b)
   \<and> (VersionInfo_eq a (VI b) \<longleftrightarrow> a = b)
   \<and> VersionInfo_lt a (VI b) =
         Res (major a < major b
              \<or> (major a = major b
                  \<and> (minor a < minor b \<or> (minor a = minor b \<and> release a < release b))))
   \<and> (VersionInfo_lt a (VI b) = Res True \<longrightarrow> VersionInfo_lt b (VI a) = Res False)
   \<and> VersionInfo_eq a (VI a)
   \<and> (VersionInfo_eq a (VI b) \<longrightarrow> VersionInfo_eq b (VI a))
   \<and> (VersionInfo_eq a (VI b) \<and> VersionInfo_eq b (VI c) \<longrightarrow> VersionInfo_eq a (VI c))
   \<and> VersionInfo_lt a (VI a) = Res False
   \<and> (VersionInfo_lt a (VI b) = Res True \<and> VersionInfo_lt b (VI c) = Res True
        \<longrightarrow> VersionInfo_lt a (VI c) = Res True)
   \<and> (VersionInfo_lt a (VI b) = Res True \<or> VersionInfo_eq a (VI b)
        \<or> VersionInfo_lt b (VI a) = Res True)
   \<and> VersionInfo_gt a (VI b) = VersionInfo_lt b (VI a)
   \<and> VersionInfo_le a (VI b) = Res (VersionInfo_lt a (VI b) = Res True \<or> VersionInfo_eq a (VI b))
   \<and> VersionInfo_ge a (VI b) = VersionInfo_le b (VI a)
   \<and> VersionInfo_lt \<lparr>major = 1, minor = 2, release = 3\<rparr>
         (VI \<lparr>major = 1, minor = 3, release = 0\<rparr>) = Res True
   \<and> VersionInfo_lt \<lparr>major = 1, minor = 3, release = 0\<rparr>
         (VI \<lparr>major = 2, minor = 0, release = 0\<rparr>) = Res True
   \<and> VersionInfo_eq \<lparr>major = 1, minor = 2, release = 3\<rparr>
         (VI \<lparr>major = 1, minor = 2, release = 3\<rparr>)
   \<and> VersionInfo_gt a NotVersionInfo = NotImplemented
   \<and> VersionInfo_lt a NotVersionInfo = NotImplemented
   \<and> VersionInfo_le a NotVersionInfo = NotImplemented
   \<and> VersionInfo_ge a NotVersionInfo = NotImplemented
   \<and> \<not> VersionInfo_eq a NotVersionInfo"
proof -
  have eqf: "VersionInfo_eq a (VI b) \<longleftrightarrow>
      major a = major b \<and> minor a = minor b \<and> release a = release b"
    by (simp add: VersionInfo_eq_def tuple_of_def)
  have eqr: "VersionInfo_eq a (VI b) \<longleftrightarrow> a = b"
    by (cases a, cases b) (simp add: VersionInfo_eq_def tuple_of_def)
  have lex: "VersionInfo_lt a (VI b) =
         Res (major a < major b
              \<or> (major a = major b
                  \<and> (minor a < minor b \<or> (minor a = minor b \<and> release a < release b))))"
    by (auto simp: VersionInfo_lt_VI tuple_of_def)
  have asym: "VersionInfo_lt a (VI b) = Res True \<longrightarrow> VersionInfo_lt b (VI a) = Res False"
    using tuple_gt_asym [of "tuple_of b" "tuple_of a"]
    by (simp add: VersionInfo_lt_VI)
  have eqs: "VersionInfo_eq a (VI a)"
    "VersionInfo_eq a (VI b) \<longrightarrow> VersionInfo_eq b (VI a)"
    "VersionInfo_eq a (VI b) \<and> VersionInfo_eq b (VI c) \<longrightarrow> VersionInfo_eq a (VI c)"
    by (simp_all add: VersionInfo_eq_def)
  have irr: "VersionInfo_lt a (VI a) = Res False"
    by (simp add: VersionInfo_lt_VI tuple_gt_irrefl)
  have tr: "VersionInfo_lt a (VI b) = Res True \<and> VersionInfo_lt b (VI c) = Res True
        \<longrightarrow> VersionInfo_lt a (VI c) = Res True"
    using tuple_gt_trans [of "tuple_of c" "tuple_of b" "tuple_of a"]
    by (simp add: VersionInfo_lt_VI)
  have tot: "VersionInfo_lt a (VI b) = Res True \<or> VersionInfo_eq a (VI b)
        \<or> VersionInfo_lt b (VI a) = Res True"
    using tuple_gt_total [of "tuple_of a" "tuple_of b"]
    by (auto simp: VersionInfo_lt_VI VersionInfo_eq_def)
  have gt: "VersionInfo_gt a (VI b) = VersionInfo_lt b (VI a)"
    by (simp add: VersionInfo_lt_VI) (simp add: VersionInfo_gt_def)
  have le: "VersionInfo_le a (VI b)
      = Res (VersionInfo_lt a (VI b) = Res True \<or> VersionInfo_eq a (VI b))"
    using tuple_gt_total [of "tuple_of a" "tuple_of b"] tuple_gt_asym [of "tuple_of a" "tuple_of b"]
      tuple_gt_irrefl [of "tuple_of a"]
    by (auto simp: VersionInfo_lt_VI VersionInfo_le_def VersionInfo_gt_def VersionInfo_eq_def)
  have ge: "VersionInfo_ge a (VI b) = VersionInfo_le b (VI a)"
    using tuple_gt_total [of "tuple_of a" "tuple_of b"] tuple_gt_asym [of "tuple_of a" "tuple_of b"]
      tuple_gt_irrefl [of "tuple_of a"]
    by (auto simp: VersionInfo_ge_def VersionInfo_le_def VersionInfo_gt_def VersionInfo_eq_def)
  have ex: "VersionInfo_lt \<lparr>major = 1, minor = 2, release = 3\<rparr>
         (VI \<lparr>major = 1, minor = 3, release = 0\<rparr>) = Res True"
    "VersionInfo_lt \<lparr>major = 1, minor = 3, release = 0\<rparr>
         (VI \<lparr>major = 2, minor = 0, release = 0\<rparr>) = Res True"
    "VersionInfo_eq \<lparr>major = 1, minor = 2, release = 3\<rparr>
         (VI \<lparr>major = 1, minor = 2, release = 3\<rparr>)"
    by (simp_all add: VersionInfo_lt_VI VersionInfo_eq_def tuple_of_def)
  have other: "VersionInfo_gt a NotVersionInfo = NotImplemented"
    "VersionInfo_lt a NotVersionInfo = NotImplemented"
    "VersionInfo_le a NotVersionInfo = NotImplemented"
    "VersionInfo_ge a NotVersionInfo = NotImplemented"
    "\<not> VersionInfo_eq a NotVersionInfo"
    by (simp_all add: VersionInfo_gt_def VersionInfo_lt_def VersionInfo_le_def
        VersionInfo_ge_def VersionInfo_eq_def)
  from eqf eqr lex asym eqs irr tr tot gt le ge ex other show ?thesis
    by (intro conjI)
qed

theorem VersionInfo_total_order_witness:
  "VersionInfo_lt \<lparr>major = 1, minor = 2, release = 3\<rparr>
       (VI \<lparr>major = 1, minor = 3, release = 0\<rparr>) = Res True
   \<and> VersionInfo_lt \<lparr>major = 1, minor = 3, release = 0\<rparr>
       (VI \<lparr>major = 2, minor = 0, release = 0\<rparr>) = Res True
   \<and> VersionInfo_lt \<lparr>major = 1, minor = 2, release = 3\<rparr>
       (VI \<lparr>major = 2, minor = 0, release = 0\<rparr>) = Res True
   \<and> VersionInfo_eq \<lparr>major = 1, minor = 2, release = 3\<rparr>
       (VI \<lparr>major = 1, minor = 2, release = 3\<rparr>)
   \<and> VersionInfo_lt \<lparr>major = 1, minor = 3, release = 0\<rparr>
       (VI \<lparr>major = 1, minor = 2, release = 3\<rparr>) = Res False"
  using VersionInfo_total_order [of "\<lparr>major = 1, minor = 2, release = 3\<rparr>"
      "\<lparr>major = 1, minor = 3, release = 0\<rparr>" "\<lparr>major = 2, minor = 0, release = 0\<rparr>"]
  by blast

subsection \<open>The generic decoder\<close>

text \<open>An attribute that no child names keeps its value.\<close>

lemma setattrs_other:
  "setattrs F D ob es = Inr ob' \<Longrightarrow> t \<notin> tag ` set es \<Longrightarrow> ob' t = ob t"
proof (induction es arbitrary: ob)
  case Nil
  then show ?case by simp
next
  case (Cons e es)
  then show ?case
    by (auto split: option.splits sum.splits)
qed

text \<open>
  An attribute that holds \<open>None\<close> or an element, and has no entry in \<open>attrfuncdict\<close>,
  ends up holding the last child that names it.
\<close>

lemma setattrs_unset_last:
  "D t = None \<Longrightarrow> setattrs F D ob es = Inr ob' \<Longrightarrow>
   ob t = Some PNone \<or> (\<exists>x. ob t = Some (PElem x)) \<Longrightarrow>
   filter (\<lambda>c. tag c = t) es \<noteq> [] \<Longrightarrow>
   ob' t = Some (PElem (last (filter (\<lambda>c. tag c = t) es)))"
proof (induction es arbitrary: ob)
  case Nil
  then show ?case by simp
next
  case (Cons e es)
  show ?case
  proof (cases "tag e = t")
    case True
    with Cons.prems(1,3) have v: "default_attrfunc F (the (ob t)) e = Inr (PElem e)"
      by (auto simp: default_attrfunc_def)
    from True Cons.prems(1,2,3) v
    have rest: "setattrs F D (ob(t \<mapsto> PElem e)) es = Inr ob'"
      by auto
    show ?thesis
    proof (cases "filter (\<lambda>c. tag c = t) es = []")
      case True
      then have "t \<notin> tag ` set es"
        by (auto simp: filter_empty_conv)
      with rest have "ob' t = Some (PElem e)"
        using setattrs_other [of F D "ob(t \<mapsto> PElem e)" es ob' t] by simp
      with True \<open>tag e = t\<close> show ?thesis by simp
    next
      case False
      with Cons.IH [OF Cons.prems(1) rest] \<open>tag e = t\<close> show ?thesis by simp
    qed
  next
    case False
    from False Cons.prems(4) have ne: "filter (\<lambda>c. tag c = t) es \<noteq> []"
      by simp
    show ?thesis
    proof (cases "ob (tag e)")
      case None
      with Cons.prems(2) have "setattrs F D ob es = Inr ob'" by simp
      from Cons.IH [OF Cons.prems(1) this Cons.prems(3) ne] False show ?thesis by simp
    next
      case (Some attr)
      with Cons.prems(2) obtain v where
        rest: "setattrs F D (ob(tag e \<mapsto> v)) es = Inr ob'"
        by (auto split: sum.splits)
      from False Cons.prems(3)
      have "(ob(tag e \<mapsto> v)) t = Some PNone \<or> (\<exists>x. (ob(tag e \<mapsto> v)) t = Some (PElem x))"
        by simp
      from Cons.IH [OF Cons.prems(1) rest this ne] False show ?thesis by simp
    qed
  qed
qed

text \<open>
  C10. For an attribute whose value is the unset default \<open>None\<close> (as \<open>symstore\<close> and
  \<open>venue\<close> of a Project and \<open>platform\<close> of a Result are after \<open>__init__\<close>), the decoder
  chosen is the identity on the element, and when the decoding of an element with a
  child of that tag returns, the attribute holds a child element itself, the last one
  with that tag.
\<close>

theorem unset_default_stores_element:
  "default_attrfunc F PNone e = Inr (PElem e)
   \<and> Project_init ''symstore'' = Some PNone
   \<and> Project_init ''venue'' = Some PNone
   \<and> Result_init ''platform'' = Some PNone
   \<and> (ob t = Some PNone \<and> setattrs_from_xml F ob xml Map.empty = Inr ob'
        \<and> c \<in> set (children xml) \<and> tag c = t
       \<longrightarrow> ob' t = Some (PElem (last (filter (\<lambda>c. tag c = t) (children xml))))
           \<and> last (filter (\<lambda>c. tag c = t) (children xml)) \<in> set (children xml))"
proof -
  have a: "default_attrfunc F PNone e = Inr (PElem e)"
    by (simp add: default_attrfunc_def)
  have b: "Project_init ''symstore'' = Some PNone" "Project_init ''venue'' = Some PNone"
    by (simp_all add: Project_init_def)
  have c: "Result_init ''platform'' = Some PNone"
    by (simp add: Result_init_def)
  have d: "ob' t = Some (PElem (last (filter (\<lambda>c. tag c = t) (children xml))))
           \<and> last (filter (\<lambda>c. tag c = t) (children xml)) \<in> set (children xml)"
    if h: "ob t = Some PNone" "setattrs_from_xml F ob xml Map.empty = Inr ob'"
      "c \<in> set (children xml)" "tag c = t"
  proof -
    from h(3,4) have ne: "filter (\<lambda>c. tag c = t) (children xml) \<noteq> []"
      by (auto simp: filter_empty_conv)
    from h(2) have s: "setattrs F Map.empty ob (children xml) = Inr ob'"
      by (simp add: setattrs_from_xml_def)
    have "ob' t = Some (PElem (last (filter (\<lambda>c. tag c = t) (children xml))))"
      using setattrs_unset_last [of Map.empty t F ob "children xml" ob'] h(1) s ne by simp
    moreover from ne have "last (filter (\<lambda>c. tag c = t) (children xml))
        \<in> set (filter (\<lambda>c. tag c = t) (children xml))"
      by (rule last_in_set)
    ultimately show ?thesis by simp
  qed
  from a b c d show ?thesis by blast
qed

theorem unset_default_stores_element_witness:
  "Project_init ''symstore'' = Some PNone
   \<and> Project_parse float_plain
        (Element ''project'' None
           [Element ''symstore'' (Some ''x'') [], Element ''rpc_seqno'' (Some ''3.0'') []])
      = Inr (Project_init(''symstore'' \<mapsto> PElem (Element ''symstore'' (Some ''x'') []),
                           ''rpc_seqno'' \<mapsto> PInt 3))"
proof -
  let ?s = "Element ''symstore'' (Some ''x'') []"
  let ?xml = "Element ''project'' None [?s, Element ''rpc_seqno'' (Some ''3.0'') []]"
  let ?ob = "Project_init(''symstore'' \<mapsto> PElem ?s, ''rpc_seqno'' \<mapsto> PInt 3)"
  have f: "parse_int float_plain (Element ''rpc_seqno'' (Some ''3.0'') []) = Inr 3"
    by code_simp
  have p: "Project_parse float_plain ?xml = Inr ?ob"
    by (simp add: Project_parse_def Struct_parse_def setattrs_from_xml_def Project_init_def
        default_attrfunc_def f)
  then have "setattrs_from_xml float_plain Project_init ?xml Map.empty = Inr ?ob"
    by (simp add: Project_parse_def Struct_parse_def)
  with unset_default_stores_element [of float_plain ?s Project_init "''symstore''" ?xml ?ob ?s]
  have "?ob ''symstore'' = Some (PElem ?s)"
    by simp
  with p show ?thesis
    by (simp add: Project_init_def)
qed

subsection \<open>Result.parse\<close>

text \<open>With the default decoders, an attribute that holds a float keeps holding a float.\<close>

lemma setattrs_float_kept:
  "setattrs F Map.empty ob es = Inr ob' \<Longrightarrow> ob k = Some (PFloat x) \<Longrightarrow>
   \<exists>y. ob' k = Some (PFloat y)"
proof (induction es arbitrary: ob x)
  case Nil
  then show ?case by simp
next
  case (Cons e es)
  show ?case
  proof (cases "ob (tag e)")
    case None
    with Cons.prems(1) have "setattrs F Map.empty ob es = Inr ob'" by simp
    from Cons.IH [OF this Cons.prems(2)] show ?thesis .
  next
    case (Some attr)
    with Cons.prems(1) obtain v where
      v: "default_attrfunc F attr e = Inr v" and
      rest: "setattrs F Map.empty (ob(tag e \<mapsto> v)) es = Inr ob'"
      by (auto split: sum.splits)
    have "\<exists>y. (ob(tag e \<mapsto> v)) k = Some (PFloat y)"
    proof (cases "tag e = k")
      case True
      with Some Cons.prems(2) have "attr = PFloat x" by simp
      with v obtain f where "v = PFloat f"
        by (auto simp: default_attrfunc_def split: sum.splits)
      with True show ?thesis by simp
    next
      case False
      with Cons.prems(2) show ?thesis by simp
    qed
    then obtain y where "(ob(tag e \<mapsto> v)) k = Some (PFloat y)" ..
    from Cons.IH [OF rest this] show ?thesis .
  qed
qed

lemma Result_decode_float_kept:
  assumes "Result_decode F xml = Inr r0"
    and "Result_init k = Some (PFloat x)"
    and "k \<noteq> ''active_task''"
  shows "\<exists>y. r0 k = Some (PFloat y)"
proof -
  from assms(1) obtain r1 where
    r1: "setattrs F Map.empty Result_init (children xml) = Inr r1"
    by (auto simp: Result_decode_def Struct_parse_def setattrs_from_xml_def split: sum.splits)
  from setattrs_float_kept [OF r1 assms(2)] obtain y1 where y1: "r1 k = Some (PFloat y1)" ..
  show ?thesis
  proof (cases "find (\<lambda>e. tag e = ''active_task'') (children xml)")
    case None
    with assms(1) r1 have "r0 = r1(''active_task'' \<mapsto> PBool False)"
      by (simp add: Result_decode_def Struct_parse_def setattrs_from_xml_def)
    with y1 assms(3) show ?thesis by simp
  next
    case (Some sub)
    with assms(1) r1
    have "setattrs F Map.empty (r1(''active_task'' \<mapsto> PBool True)) (children sub) = Inr r0"
      by (simp add: Result_decode_def Struct_parse_def setattrs_from_xml_def)
    moreover from y1 assms(3) have "(r1(''active_task'' \<mapsto> PBool True)) k = Some (PFloat y1)"
      by simp
    ultimately show ?thesis by (rule setattrs_float_kept)
  qed
qed

lemma elapsed_shim_floats:
  "r c = Some (PFloat cc) \<Longrightarrow> r e = Some (PFloat el) \<Longrightarrow>
   elapsed_shim c e r = Inr (r(e \<mapsto> PFloat (if cc \<noteq> Finite 0 \<and> el = Finite 0 then cc else el)))"
  by (simp add: elapsed_shim_def getattr_def py_eq_zero_def map_upd_triv)

text \<open>
  C3. Whenever the generic decoding of a result element returns an entity \<open>r0\<close>, its
  four time fields hold floats and \<open>Result.parse\<close> returns \<open>r0\<close> with \<open>elapsed_time\<close>
  replaced by \<open>current_cpu_time\<close> if that is nonzero and \<open>elapsed_time\<close> is zero, and
  \<open>final_elapsed_time\<close> replaced by \<open>final_cpu_time\<close> under the same test on the final
  pair; each replacement looks at its own pair only. An exception of the generic
  decoding is the exception of \<open>Result.parse\<close>.
\<close>

theorem Result_parse_shim:
  "(Result_decode F xml = Inl err \<longrightarrow> Result_parse F xml = Inl err)
   \<and> (Result_decode F xml = Inr r0 \<longrightarrow>
        (\<exists>cc el fc fel.
           r0 ''current_cpu_time'' = Some (PFloat cc) \<and> r0 ''elapsed_time'' = Some (PFloat el)
           \<and> r0 ''final_cpu_time'' = Some (PFloat fc)
           \<and> r0 ''final_elapsed_time'' = Some (PFloat fel)
           \<and> Result_parse F xml =
               Inr (r0(''elapsed_time'' \<mapsto>
                         PFloat (if cc \<noteq> Finite 0 \<and> el = Finite 0 then cc else el),
                       ''final_elapsed_time'' \<mapsto>
                         PFloat (if fc \<noteq> Finite 0 \<and> fel = Finite 0 then fc else fel)))))"
proof (intro conjI impI)
  assume "Result_decode F xml = Inl err"
  then show "Result_parse F xml = Inl err"
    by (simp add: Result_parse_def)
next
  assume d: "Result_decode F xml = Inr r0"
  have i: "Result_init ''current_cpu_time'' = Some (PFloat (Finite 0))"
    "Result_init ''elapsed_time'' = Some (PFloat (Finite 0))"
    "Result_init ''final_cpu_time'' = Some (PFloat (Finite 0))"
    "Result_init ''final_elapsed_time'' = Some (PFloat (Finite 0))"
    by (simp_all add: Result_init_def)
  from Result_decode_float_kept [OF d i(1)] obtain cc
    where cc: "r0 ''current_cpu_time'' = Some (PFloat cc)" by auto
  from Result_decode_float_kept [OF d i(2)] obtain el
    where el: "r0 ''elapsed_time'' = Some (PFloat el)" by auto
  from Result_decode_float_kept [OF d i(3)] obtain fc
    where fc: "r0 ''final_cpu_time'' = Some (PFloat fc)" by auto
  from Result_decode_float_kept [OF d i(4)] obtain fel
    where fel: "r0 ''final_elapsed_time'' = Some (PFloat fel)" by auto
  let ?r1 = "r0(''elapsed_time'' \<mapsto> PFloat (if cc \<noteq> Finite 0 \<and> el = Finite 0 then cc else el))"
  have s1: "elapsed_shim ''current_cpu_time'' ''elapsed_time'' r0 = Inr ?r1"
    using cc el by (rule elapsed_shim_floats)
  have "?r1 ''final_cpu_time'' = Some (PFloat fc)"
    "?r1 ''final_elapsed_time'' = Some (PFloat fel)"
    using fc fel by simp_all
  then have s2: "elapsed_shim ''final_cpu_time'' ''final_elapsed_time'' ?r1 =
      Inr (?r1(''final_elapsed_time'' \<mapsto>
                 PFloat (if fc \<noteq> Finite 0 \<and> fel = Finite 0 then fc else fel)))"
    by (rule elapsed_shim_floats)
  from d s1 s2 have "Result_parse F xml =
      Inr (?r1(''final_elapsed_time'' \<mapsto>
                 PFloat (if fc \<noteq> Finite 0 \<and> fel = Finite 0 then fc else fel)))"
    by (simp add: Result_parse_def)
  with cc el fc fel
  show "\<exists>cc el fc fel.
           r0 ''current_cpu_time'' = Some (PFloat cc) \<and> r0 ''elapsed_time'' = Some (PFloat el)
           \<and> r0 ''final_cpu_time'' = Some (PFloat fc)
           \<and> r0 ''final_elapsed_time'' = Some (PFloat fel)
           \<and> Result_parse F xml =
               Inr (r0(''elapsed_time'' \<mapsto>
                         PFloat (if cc \<noteq> Finite 0 \<and> el = Finite 0 then cc else el),
                       ''final_elapsed_time'' \<mapsto>
                         PFloat (if fc \<noteq> Finite 0 \<and> fel = Finite 0 then fc else fel)))"
    by blast
qed

lemma Result_init_lookups:
  "Result_init ''name'' = Some (PStr [])"
  "Result_init ''current_cpu_time'' = Some (PFloat (Finite 0))"
  "Result_init ''elapsed_time'' = Some (PFloat (Finite 0))"
  "Result_init ''final_cpu_time'' = Some (PFloat (Finite 0))"
  "Result_init ''final_elapsed_time'' = Some (PFloat (Finite 0))"
  "Result_init ''exit_status'' = Some (PInt 0)"
  "Result_init ''platform'' = Some PNone"
  by (simp_all add: Result_init_def)

theorem Result_parse_shim_witness:
  "Result_decode float_plain
      (Element ''result'' None
         [Element ''name'' (Some ''task_1'') [],
          Element ''current_cpu_time'' (Some ''42.0'') [],
          Element ''elapsed_time'' (Some ''0'') []])
     = Inr (Result_init(''name'' \<mapsto> PStr ''task_1'',
                        ''current_cpu_time'' \<mapsto> PFloat (Finite 42),
                        ''elapsed_time'' \<mapsto> PFloat (Finite 0),
                        ''active_task'' \<mapsto> PBool False))
   \<and> (\<exists>r. Result_parse float_plain
        (Element ''result'' None
           [Element ''name'' (Some ''task_1'') [],
            Element ''current_cpu_time'' (Some ''42.0'') [],
            Element ''elapsed_time'' (Some ''0'') []]) = Inr r
        \<and> r ''current_cpu_time'' = Some (PFloat (Finite 42))
        \<and> r ''elapsed_time'' = Some (PFloat (Finite 42))
        \<and> r ''final_elapsed_time'' = Some (PFloat (Finite 0)))"
proof -
  let ?xml = "Element ''result'' None
         [Element ''name'' (Some ''task_1'') [],
          Element ''current_cpu_time'' (Some ''42.0'') [],
          Element ''elapsed_time'' (Some ''0'') []]"
  let ?r0 = "Result_init(''name'' \<mapsto> PStr ''task_1'',
                        ''current_cpu_time'' \<mapsto> PFloat (Finite 42),
                        ''elapsed_time'' \<mapsto> PFloat (Finite 0),
                        ''active_task'' \<mapsto> PBool False)"
  have f1: "parse_float float_plain (Element ''current_cpu_time'' (Some ''42.0'') [])
      = Inr (Finite 42)"
    by code_simp
  have f2: "parse_float float_plain (Element ''elapsed_time'' (Some ''0'') []) = Inr (Finite 0)"
    by code_simp
  have f3: "parse_str (Element ''name'' (Some ''task_1'') []) = ''task_1''"
    by code_simp
  have d: "Result_decode float_plain ?xml = Inr ?r0"
    by (simp add: Result_decode_def Struct_parse_def setattrs_from_xml_def Result_init_lookups
        default_attrfunc_def f1 f2 f3)
  have v: "?r0 ''current_cpu_time'' = Some (PFloat (Finite 42))"
    "?r0 ''elapsed_time'' = Some (PFloat (Finite 0))"
    "?r0 ''final_cpu_time'' = Some (PFloat (Finite 0))"
    "?r0 ''final_elapsed_time'' = Some (PFloat (Finite 0))"
    by (simp_all add: Result_init_lookups)
  from Result_parse_shim [of float_plain ?xml OtherError ?r0] d v
  obtain r where r: "Result_parse float_plain ?xml = Inr r"
    "r = ?r0(''elapsed_time'' \<mapsto> PFloat (Finite 42),
      ''final_elapsed_time'' \<mapsto> PFloat (Finite 0))"
    by simp
  from r(2) have "r ''current_cpu_time'' = Some (PFloat (Finite 42))"
    "r ''elapsed_time'' = Some (PFloat (Finite 42))"
    "r ''final_elapsed_time'' = Some (PFloat (Finite 0))"
    by simp_all
  with r(1) have "\<exists>r. Result_parse float_plain ?xml = Inr r
        \<and> r ''current_cpu_time'' = Some (PFloat (Finite 42))
        \<and> r ''elapsed_time'' = Some (PFloat (Finite 42))
        \<and> r ''final_elapsed_time'' = Some (PFloat (Finite 0))"
    by blast
  with d show ?thesis by (rule conjI)
qed

subsection \<open>The authentication handshake\<close>

lemma authorize_explicit:
  "authorize X (Some password) (self, fs) =
     (case rpc_call X (rpc self) ''<auth1/>'' of
        (Inl err, t1) \<Rightarrow> (Inl err, self\<lparr>rpc := t1\<rparr>, fs)
      | (Inr reply1, t1) \<Rightarrow>
          (case rpc_call X t1
                  (auth2_request
                     (lower (md5_hexdigest X (encode_utf8 (format_s (etext reply1) @ password))))) of
             (Inl err, t2) \<Rightarrow> (Inl err, self\<lparr>rpc := t2\<rparr>, fs)
           | (Inr reply, t2) \<Rightarrow> (Inr (tag reply = ''authorized''), self\<lparr>rpc := t2\<rparr>, fs)))"
  by (simp add: authorize_def resolve_password_def format_s_def Let_def
      split: prod.splits sum.splits)

text \<open>
  C4. Let the reply to \<open><auth1/>\<close> carry the nonce as its text. Then for every nonce and
  every password the second request of \<open>authorize\<close> is the \<open>auth2\<close> request whose
  \<open>nonce_hash\<close> is the lowercased hexadecimal MD5 digest of the bytes of nonce followed by
  password, and \<open>authorize\<close> returns true exactly when the reply to that request is
  tagged \<open>authorized\<close>; an exception of that call is the exception of \<open>authorize\<close>.
\<close>

theorem authorize_digest:
  "rpc_call X (rpc self) ''<auth1/>'' = (Inr reply1, t1) \<and> etext reply1 = Some nonce
   \<and> rpc_call X t1
        (''<auth2><nonce_hash>'' @ lower (md5_hexdigest X (encode_utf8 (nonce @ password)))
           @ ''</nonce_hash></auth2>'') = (r2, t2)
   \<longrightarrow> authorize X (Some password) (self, fs) =
         ((case r2 of Inl err \<Rightarrow> Inl err | Inr reply \<Rightarrow> Inr (tag reply = ''authorized'')),
          self\<lparr>rpc := t2\<rparr>, fs)
       \<and> (fst (authorize X (Some password) (self, fs)) = Inr True
            \<longleftrightarrow> (\<exists>reply. r2 = Inr reply \<and> tag reply = ''authorized''))"
  by (cases r2) (auto simp: authorize_explicit auth2_request_def format_s_def)

lemma abcpw_digest:
  "lower (shown_digest (encode_utf8 (''abc'' @ ''pw''))) = ''md5(abcpw)''"
  by code_simp

theorem authorize_digest_witness:
  "authorize scripted (Some ''pw'')
      (client0 [] (Some ''pw'')
         \<lparr>connects = [],
          replies = [Inr (Element ''nonce'' (Some ''abc'') []), Inr (Element ''authorized'' None [])],
          sent = []\<rparr>,
       \<lparr>gui_rpc_passwd_file = None, opens = 0\<rparr>)
   = (Inr True,
      client0 [] (Some ''pw'')
         \<lparr>connects = [], replies = [],
          sent = [''<auth1/>'', ''<auth2><nonce_hash>md5(abcpw)</nonce_hash></auth2>'']\<rparr>,
      \<lparr>gui_rpc_passwd_file = None, opens = 0\<rparr>)"
proof -
  let ?t0 = "\<lparr>connects = [],
          replies = [Inr (Element ''nonce'' (Some ''abc'') []), Inr (Element ''authorized'' None [])],
          sent = []\<rparr>"
  let ?t1 = "\<lparr>connects = [], replies = [Inr (Element ''authorized'' None [])],
          sent = [''<auth1/>'']\<rparr>"
  let ?t2 = "\<lparr>connects = [], replies = [],
          sent = [''<auth1/>'', ''<auth2><nonce_hash>md5(abcpw)</nonce_hash></auth2>'']\<rparr>"
  have c1: "rpc_call scripted (rpc (client0 [] (Some ''pw'') ?t0)) ''<auth1/>''
      = (Inr (Element ''nonce'' (Some ''abc'') []), ?t1)"
    by (simp add: scripted_def scripted_call_def client0_def)
  have c2: "rpc_call scripted ?t1
        (''<auth2><nonce_hash>''
           @ lower (md5_hexdigest scripted (encode_utf8 (''abc'' @ ''pw'')))
           @ ''</nonce_hash></auth2>'') = (Inr (Element ''authorized'' None []), ?t2)"
    using abcpw_digest by (simp add: scripted_def scripted_call_def)
  from authorize_digest [of scripted "client0 [] (Some ''pw'') ?t0" "Element ''nonce'' (Some ''abc'') []"
      ?t1 "''abc''" "''pw''" "Inr (Element ''authorized'' None [])" ?t2
      "\<lparr>gui_rpc_passwd_file = None, opens = 0\<rparr>"] c1 c2
  show ?thesis
    by (simp add: client0_def)
qed

subsection \<open>The password file\<close>







subsection \<open>connect and get_cc_status\<close>









subsection \<open>get_results and get_projects\<close>

lemma parse_each_all:
  "\<forall>c \<in> set items. \<exists>x. p c = Inr x \<Longrightarrow>
   \<exists>xs. parse_each p items = Inr xs \<and> list_all2 (\<lambda>c x. p c = Inr x) items xs"
proof (induction items)
  case Nil
  then show ?case by simp
next
  case (Cons item items)
  then obtain x xs where "p item = Inr x" "parse_each p items = Inr xs"
    "list_all2 (\<lambda>c x. p c = Inr x) items xs"
    by auto
  then show ?case by simp
qed

lemma parse_each_raises:
  "c \<in> set items \<Longrightarrow> p c = Inl err \<Longrightarrow> \<exists>err'. parse_each p items = Inl err'"
proof (induction items)
  case Nil
  then show ?case by simp
next
  case (Cons item items)
  then show ?case
    by (cases "p item"; cases "parse_each p items") auto
qed

lemma bad_exit_status:
  "parse_int float_plain (Element ''exit_status'' (Some ''abc'') []) = Inl ValueError"
  by code_simp

lemma Result_parse_bad_exit_status:
  "Result_parse float_plain (Element ''result'' None [Element ''exit_status'' (Some ''abc'') []])
     = Inl ValueError"
  by (simp add: Result_parse_def Result_decode_def Struct_parse_def setattrs_from_xml_def
      Result_init_lookups default_attrfunc_def bad_exit_status)

text \<open>
  C8, as claimed, fails for a reply tagged \<open>results\<close> with a child that does not decode:
  the text \<open>abc\<close> in the integer field \<open>exit_status\<close> makes \<open>Result.parse\<close> raise
  ValueError, and \<open>get_results\<close> raises it instead of returning a list.
\<close>

theorem get_results_undecodable_child_counterexample:
  "fst (get_results scripted False
          (client0 [] None
             \<lparr>connects = [],
              replies = [Inr (Element ''results'' None
                                [Element ''result'' None
                                   [Element ''exit_status'' (Some ''abc'') []]])],
              sent = []\<rparr>)) = Inl ValueError"
  by (simp add: get_results_def scripted_def scripted_call_def client0_def
      Result_parse_bad_exit_status)

text \<open>
  C8, amended: for every reply, \<open>get_results(active_only)\<close> and \<open>get_projects()\<close> return
  the empty list when the reply's tag is not \<open>results\<close> / \<open>projects\<close>; otherwise, when
  every child of the reply decodes, they return one decoded entity per child, in the
  order of the children; and when some child does not decode, they raise and return
  no list.
\<close>

theorem get_results_projects_amended:
  "(rpc_call X (rpc self) (get_results_request active_only) = (Inr reply, t) \<longrightarrow>
      (tag reply \<noteq> ''results'' \<longrightarrow> get_results X active_only self = (Inr [], self\<lparr>rpc := t\<rparr>))
      \<and> (tag reply = ''results''
           \<and> (\<forall>c \<in> set (children reply). \<exists>r. Result_parse (builtin_float X) c = Inr r)
          \<longrightarrow> (\<exists>rs. get_results X active_only self = (Inr rs, self\<lparr>rpc := t\<rparr>)
                 \<and> length rs = length (children reply)
                 \<and> list_all2 (\<lambda>c r. Result_parse (builtin_float X) c = Inr r)
                      (children reply) rs))
      \<and> (tag reply = ''results''
           \<and> (\<exists>c \<in> set (children reply). \<exists>err. Result_parse (builtin_float X) c = Inl err)
          \<longrightarrow> (\<exists>err. get_results X active_only self = (Inl err, self\<lparr>rpc := t\<rparr>))))
   \<and> (rpc_call X (rpc self) ''<get_project_status/>'' = (Inr reply, t) \<longrightarrow>
      (tag reply \<noteq> ''projects'' \<longrightarrow> get_projects X self = (Inr [], self\<lparr>rpc := t\<rparr>))
      \<and> (tag reply = ''projects''
           \<and> (\<forall>c \<in> set (children reply). \<exists>r. Project_parse (builtin_float X) c = Inr r)
          \<longrightarrow> (\<exists>rs. get_projects X self = (Inr rs, self\<lparr>rpc := t\<rparr>)
                 \<and> length rs = length (children reply)
                 \<and> list_all2 (\<lambda>c r. Project_parse (builtin_float X) c = Inr r)
                      (children reply) rs))
      \<and> (tag reply = ''projects''
           \<and> (\<exists>c \<in> set (children reply). \<exists>err. Project_parse (builtin_float X) c = Inl err)
          \<longrightarrow> (\<exists>err. get_projects X self = (Inl err, self\<lparr>rpc := t\<rparr>))))"
proof -
  have all: "\<exists>rs. parse_each p items = Inr rs \<and> length rs = length items
      \<and> list_all2 (\<lambda>c r. p c = Inr r) items rs"
    if "\<forall>c \<in> set items. \<exists>r. p c = Inr r" for p :: "element \<Rightarrow> error + obj" and items
  proof -
    from parse_each_all [OF that] obtain rs where rs: "parse_each p items = Inr rs"
      "list_all2 (\<lambda>c r. p c = Inr r) items rs"
      by blast
    from rs(2) have "length rs = length items"
      by (simp add: list_all2_lengthD)
    with rs show ?thesis by blast
  qed
  have bad: "\<exists>err. parse_each p items = Inl err"
    if "\<exists>c \<in> set items. \<exists>err. p c = Inl err" for p :: "element \<Rightarrow> error + obj" and items
    using that parse_each_raises by blast
  have r: "(tag reply \<noteq> ''results'' \<longrightarrow> get_results X active_only self = (Inr [], self\<lparr>rpc := t\<rparr>))
      \<and> (tag reply = ''results''
           \<and> (\<forall>c \<in> set (children reply). \<exists>r. Result_parse (builtin_float X) c = Inr r)
          \<longrightarrow> (\<exists>rs. get_results X active_only self = (Inr rs, self\<lparr>rpc := t\<rparr>)
                 \<and> length rs = length (children reply)
                 \<and> list_all2 (\<lambda>c r. Result_parse (builtin_float X) c = Inr r)
                      (children reply) rs))
      \<and> (tag reply = ''results''
           \<and> (\<exists>c \<in> set (children reply). \<exists>err. Result_parse (builtin_float X) c = Inl err)
          \<longrightarrow> (\<exists>err. get_results X active_only self = (Inl err, self\<lparr>rpc := t\<rparr>)))"
    if "rpc_call X (rpc self) (get_results_request active_only) = (Inr reply, t)"
    using that all [of "children reply" "Result_parse (builtin_float X)"]
      bad [of "children reply" "Result_parse (builtin_float X)"]
    by (auto simp: get_results_def)
  have p: "(tag reply \<noteq> ''projects'' \<longrightarrow> get_projects X self = (Inr [], self\<lparr>rpc := t\<rparr>))
      \<and> (tag reply = ''projects''
           \<and> (\<forall>c \<in> set (children reply). \<exists>r. Project_parse (builtin_float X) c = Inr r)
          \<longrightarrow> (\<exists>rs. get_projects X self = (Inr rs, self\<lparr>rpc := t\<rparr>)
                 \<and> length rs = length (children reply)
                 \<and> list_all2 (\<lambda>c r. Project_parse (builtin_float X) c = Inr r)
                      (children reply) rs))
      \<and> (tag reply = ''projects''
           \<and> (\<exists>c \<in> set (children reply). \<exists>err. Project_parse (builtin_float X) c = Inl err)
          \<longrightarrow> (\<exists>err. get_projects X self = (Inl err, self\<lparr>rpc := t\<rparr>)))"
    if "rpc_call X (rpc self) ''<get_project_status/>'' = (Inr reply, t)"
    using that all [of "children reply" "Project_parse (builtin_float X)"]
      bad [of "children reply" "Project_parse (builtin_float X)"]
    by (auto simp: get_projects_def)
  from r p show ?thesis by blast
qed

lemma Project_init_lookups:
  "Project_init ''project_name'' = Some (PStr [])"
  "Project_init ''userid'' = Some (PInt 0)"
  by (simp_all add: Project_init_def)

lemma example_fields:
  "parse_str (Element ''name'' (Some ''task_1'') []) = ''task_1''"
  "parse_str (Element ''name'' (Some ''task_2'') []) = ''task_2''"
  "parse_str (Element ''project_name'' (Some ''alpha'') []) = ''alpha''"
  "parse_int float_plain (Element ''userid'' (Some ''x'') []) = Inl ValueError"
  by code_simp+

theorem get_results_projects_amended_witness:
  "fst (get_results scripted True
          (client0 [] None
             \<lparr>connects = [],
              replies = [Inr (Element ''results'' None
                                [Element ''result'' None [Element ''name'' (Some ''task_1'') []],
                                 Element ''result'' None [Element ''name'' (Some ''task_2'') []]])],
              sent = []\<rparr>))
     = Inr [Result_init(''name'' \<mapsto> PStr ''task_1'', ''active_task'' \<mapsto> PBool False),
            Result_init(''name'' \<mapsto> PStr ''task_2'', ''active_task'' \<mapsto> PBool False)]
   \<and> fst (get_results scripted True
          (client0 [] None
             \<lparr>connects = [],
              replies = [Inr (Element ''error'' (Some ''unauthorized'') [])],
              sent = []\<rparr>)) = Inr []
   \<and> fst (get_projects scripted
          (client0 [] None
             \<lparr>connects = [],
              replies = [Inr (Element ''projects'' None
                                [Element ''project'' None
                                   [Element ''project_name'' (Some ''alpha'') []]])],
              sent = []\<rparr>))
     = Inr [Project_init(''project_name'' \<mapsto> PStr ''alpha'')]
   \<and> (\<exists>err. fst (get_projects scripted
          (client0 [] None
             \<lparr>connects = [],
              replies = [Inr (Element ''projects'' None
                                [Element ''project'' None [Element ''userid'' (Some ''x'') []]])],
              sent = []\<rparr>)) = Inl err)"
proof -
  let ?c1 = "Element ''result'' None [Element ''name'' (Some ''task_1'') []]"
  let ?c2 = "Element ''result'' None [Element ''name'' (Some ''task_2'') []]"
  let ?r1 = "Result_init(''name'' \<mapsto> PStr ''task_1'', ''active_task'' \<mapsto> PBool False)"
  let ?r2 = "Result_init(''name'' \<mapsto> PStr ''task_2'', ''active_task'' \<mapsto> PBool False)"
  let ?two = "Element ''results'' None [?c1, ?c2]"
  let ?refused = "Element ''error'' (Some ''unauthorized'') []"
  let ?alpha = "Element ''project'' None [Element ''project_name'' (Some ''alpha'') []]"
  let ?odd = "Element ''project'' None [Element ''userid'' (Some ''x'') []]"
  let ?rq = "''<get_results><active_only>1</active_only></get_results>''"
  let ?pq = "''<get_project_status/>''"
  let ?script = "\<lambda>reply. \<lparr>connects = [], replies = [Inr reply], sent = []\<rparr>"
  let ?after = "\<lambda>q. \<lparr>connects = [], replies = [], sent = [q]\<rparr>"
  have d1: "Result_decode float_plain ?c1 = Inr ?r1"
    by (simp add: Result_decode_def Struct_parse_def setattrs_from_xml_def Result_init_lookups
        default_attrfunc_def example_fields)
  have d2: "Result_decode float_plain ?c2 = Inr ?r2"
    by (simp add: Result_decode_def Struct_parse_def setattrs_from_xml_def Result_init_lookups
        default_attrfunc_def example_fields)
  have p1: "Result_parse float_plain ?c1 = Inr ?r1"
    by (simp add: Result_parse_def d1 elapsed_shim_def getattr_def py_eq_zero_def
        Result_init_lookups)
  have p2: "Result_parse float_plain ?c2 = Inr ?r2"
    by (simp add: Result_parse_def d2 elapsed_shim_def getattr_def py_eq_zero_def
        Result_init_lookups)
  have p3: "Project_parse float_plain ?alpha = Inr (Project_init(''project_name'' \<mapsto> PStr ''alpha''))"
    by (simp add: Project_parse_def Struct_parse_def setattrs_from_xml_def Project_init_lookups
        default_attrfunc_def example_fields)
  have p4: "Project_parse float_plain ?odd = Inl ValueError"
    by (simp add: Project_parse_def Struct_parse_def setattrs_from_xml_def Project_init_lookups
        default_attrfunc_def example_fields)
  let ?ps = "Element ''projects'' None [?alpha]"
  let ?qs = "Element ''projects'' None [?odd]"
  let ?cl = "\<lambda>reply. client0 [] None (?script reply)"
  have F: "builtin_float scripted = float_plain"
    by (simp add: scripted_def)
  have q1: "rpc_call scripted (rpc (?cl reply)) (get_results_request True)
      = (Inr reply, ?after ?rq)" for reply
    by (simp add: scripted_def scripted_call_def client0_def get_results_request_def)
  have q2: "rpc_call scripted (rpc (?cl reply)) ?pq = (Inr reply, ?after ?pq)" for reply
    by (simp add: scripted_def scripted_call_def client0_def)
  have h1: "tag ?two = ''results''
      \<and> (\<forall>c \<in> set (children ?two). \<exists>r. Result_parse (builtin_float scripted) c = Inr r)"
    by (simp add: F p1 p2)
  have h2: "tag ?refused \<noteq> ''results''"
    by simp
  have h3: "tag ?ps = ''projects''
      \<and> (\<forall>c \<in> set (children ?ps). \<exists>r. Project_parse (builtin_float scripted) c = Inr r)"
    by (simp add: F p3)
  have h4: "tag ?qs = ''projects''
      \<and> (\<exists>c \<in> set (children ?qs). \<exists>err. Project_parse (builtin_float scripted) c = Inl err)"
    by (simp add: F p4)
  from get_results_projects_amended [where X = scripted and active_only = True
      and self = "?cl ?two" and reply = ?two and t = "?after ?rq"] q1 [of ?two] h1
  have "\<exists>rs. get_results scripted True (?cl ?two) = (Inr rs, ?cl ?two\<lparr>rpc := ?after ?rq\<rparr>)
      \<and> length rs = length (children ?two)
      \<and> list_all2 (\<lambda>c r. Result_parse (builtin_float scripted) c = Inr r) (children ?two) rs"
    by blast
  then obtain rs where rs: "fst (get_results scripted True (?cl ?two)) = Inr rs"
    "list_all2 (\<lambda>c r. Result_parse float_plain c = Inr r) [?c1, ?c2] rs"
    by (auto simp add: F)
  from rs(2) have "rs = [?r1, ?r2]"
    by (auto simp add: list_all2_Cons1 p1 p2)
  with rs(1) have a: "fst (get_results scripted True (?cl ?two)) = Inr [?r1, ?r2]"
    by simp
  from get_results_projects_amended [where X = scripted and active_only = True
      and self = "?cl ?refused" and reply = ?refused and t = "?after ?rq"] q1 [of ?refused] h2
  have "get_results scripted True (?cl ?refused) = (Inr [], ?cl ?refused\<lparr>rpc := ?after ?rq\<rparr>)"
    by blast
  then have b: "fst (get_results scripted True (?cl ?refused)) = Inr []"
    by simp
  from get_results_projects_amended [where X = scripted
      and self = "?cl ?ps" and reply = ?ps and t = "?after ?pq"] q2 [of ?ps] h3
  have "\<exists>rs. get_projects scripted (?cl ?ps) = (Inr rs, ?cl ?ps\<lparr>rpc := ?after ?pq\<rparr>)
      \<and> length rs = length (children ?ps)
      \<and> list_all2 (\<lambda>c r. Project_parse (builtin_float scripted) c = Inr r) (children ?ps) rs"
    by blast
  then obtain ps where ps: "fst (get_projects scripted (?cl ?ps)) = Inr ps"
    "list_all2 (\<lambda>c r. Project_parse float_plain c = Inr r) [?alpha] ps"
    by (auto simp add: F)
  from ps(2) have "ps = [Project_init(''project_name'' \<mapsto> PStr ''alpha'')]"
    by (auto simp add: list_all2_Cons1 p3)
  with ps(1) have c: "fst (get_projects scripted (?cl ?ps))
      = Inr [Project_init(''project_name'' \<mapsto> PStr ''alpha'')]"
    by simp
  from get_results_projects_amended [where X = scripted
      and self = "?cl ?qs" and reply = ?qs and t = "?after ?pq"] q2 [of ?qs] h4
  have "\<exists>err. get_projects scripted (?cl ?qs) = (Inl err, ?cl ?qs\<lparr>rpc := ?after ?pq\<rparr>)"
    by blast
  then have d: "\<exists>err. fst (get_projects scripted (?cl ?qs)) = Inl err"
    by auto
  from a b c d show ?thesis
    by blast
qed

end
